theory Spec2Isabelle
  imports Main
begin

section \<open>Python strings and sets\<close>

text \<open>
  A Python \<open>str\<close> is modelled as a \<open>string\<close>, one \<open>char\<close> per code point; the
  model covers text whose code points are below 256.  On that range \<open>str.lower\<close>,
  \<open>str.isspace\<close> and the whitespace \<open>str.split()\<close> and \<open>str.strip()\<close> use are
  exactly the tables written out below.
\<close>

definition isspace :: "char \<Rightarrow> bool" where
  "isspace c = (of_char c \<in> {9, 10, 11, 12, 13, 28, 29, 30, 31, 32, 133, 160 :: nat})"

definition lower_char :: "char \<Rightarrow> char" where
  "lower_char c =
     (let n = of_char c :: nat
      in if (65 \<le> n \<and> n \<le> 90) \<or> (192 \<le> n \<and> n \<le> 222 \<and> n \<noteq> 215)
         then char_of (n + 32) else c)"

text \<open>\<open>s.lower()\<close>\<close>

definition str_lower :: "string \<Rightarrow> string" where
  "str_lower s = map lower_char s"

text \<open>\<open>s.replace(c, '')\<close> for a one-character \<open>c\<close>: every occurrence is deleted.\<close>

definition str_replace_empty :: "char \<Rightarrow> string \<Rightarrow> string" where
  "str_replace_empty c s = filter (\<lambda>x. x \<noteq> c) s"

text \<open>
  \<open>s.split()\<close> with no separator: the maximal runs of non-whitespace characters, in
  order; no empty string is ever produced.  \<open>split_from cur s\<close> scans \<open>s\<close> with the
  word read so far in \<open>cur\<close>.
\<close>

fun split_from :: "string \<Rightarrow> string \<Rightarrow> string list" where
  "split_from cur [] = (if cur = [] then [] else [cur])"
| "split_from cur (c # cs) =
     (if isspace c
      then (if cur = [] then split_from [] cs else cur # split_from [] cs)
      else split_from (cur @ [c]) cs)"

definition str_split :: "string \<Rightarrow> string list" where
  "str_split s = split_from [] s"

text \<open>
  A Python \<open>set\<close> is modelled as a list without repetitions.  Python does not specify
  the iteration order of a set, so the order of such a list carries no meaning and no
  theorem below reads it: statements are about \<open>set\<close>, \<open>distinct\<close> and \<open>length\<close>.
  \<open>set_of xs\<close> is \<open>set(xs)\<close>, \<open>list_of s\<close> is \<open>list(s)\<close>, \<open>set_add\<close> is \<open>s.add(x)\<close>.
\<close>

definition set_of :: "'a list \<Rightarrow> 'a list" where
  "set_of xs = remdups xs"

definition list_of :: "'a list \<Rightarrow> 'a list" where
  "list_of s = s"

definition set_add :: "'a \<Rightarrow> 'a list \<Rightarrow> 'a list" where
  "set_add x s = (if x \<in> set s then s else s @ [x])"

section \<open>The system's state\<close>

text \<open>
  The recognition configuration of the speech client library, with the fields
  \<open>_get_streaming_config\<close> sets.
\<close>

datatype AudioEncoding = ENCODING_UNSPECIFIED | LINEAR16 | FLAC | MULAW

record RecognitionConfig =
  encoding :: AudioEncoding
  sample_rate_hertz :: int
  language_code :: string
  enable_automatic_punctuation :: bool
  model :: string

record StreamingRecognitionConfig =
  config :: RecognitionConfig
  interim_results :: bool

text \<open>
  An asyncio subprocess as the program sees it: its command line, its \<open>returncode\<close>
  (\<open>None\<close> until the event loop has observed the exit) and the number of SIGTERMs
  \<open>terminate()\<close> has sent to it.
\<close>

record process =
  args :: "string list"
  returncode :: "int option"
  sigterms :: nat

text \<open>
  The fields of \<open>BettingSystem\<close>.  \<open>self_keywords\<close> is the field \<open>keywords\<close>;
  it and \<open>clients\<close> are Python sets.  \<open>'ws\<close> is the type of WebSocket connection
  objects.  The speech client is a handle of the external service and has no field
  here.
\<close>

record 'ws BettingSystem =
  self_keywords :: "string list"
  ws_port :: int
  streaming_config :: StreamingRecognitionConfig
  is_running :: bool
  ffmpeg_process :: "process option"
  clients :: "'ws list"

definition get_streaming_config :: StreamingRecognitionConfig where
  "get_streaming_config =
     \<lparr>config = \<lparr>encoding = LINEAR16, sample_rate_hertz = 16000, language_code = ''en-US'',
                 enable_automatic_punctuation = True, model = ''video''\<rparr>,
      interim_results = True\<rparr>"

text \<open>\<open>BettingSystem.__init__(keywords, ws_port)\<close>\<close>

definition BettingSystem_init :: "string list \<Rightarrow> int \<Rightarrow> 'ws BettingSystem" where
  "BettingSystem_init kws port =
     \<lparr>self_keywords = set_of (map str_lower kws),
      ws_port = port,
      streaming_config = get_streaming_config,
      is_running = False,
      ffmpeg_process = None,
      clients = set_of []\<rparr>"

section \<open>Keyword matching\<close>

text \<open>The \<open>for word in words\<close> loop of \<open>_find_keywords\<close>, with \<open>found\<close> as accumulator.\<close>

fun find_loop :: "string list \<Rightarrow> string list \<Rightarrow> string list \<Rightarrow> string list" where
  "find_loop kws [] found = found"
| "find_loop kws (word # words) found =
     find_loop kws words (if word \<in> set kws then found @ [word] else found)"

definition find_keywords :: "'ws BettingSystem \<Rightarrow> string \<Rightarrow> string list" where
  "find_keywords self txt =
     (let words = str_split (str_replace_empty CHR '','' (str_replace_empty CHR ''.'' (str_lower txt)))
      in list_of (set_of (find_loop (self_keywords self) words [])))"

text \<open>
  The matcher as the specification words it: lowercase the text, strip every \<open>.\<close> and
  \<open>,\<close>, split on whitespace.
\<close>

definition strip_punct :: "string \<Rightarrow> string" where
  "strip_punct s = filter (\<lambda>c. c \<noteq> CHR ''.'' \<and> c \<noteq> CHR '','') s"

definition normalized_tokens :: "string \<Rightarrow> string list" where
  "normalized_tokens txt = str_split (strip_punct (str_lower txt))"

section \<open>Exceptions, log records and actions\<close>

text \<open>
  What a Python call can raise.  \<open>TimeoutError\<close> is \<open>asyncio.TimeoutError\<close>;
  \<open>RuntimeError\<close> carries its message; \<open>OtherException\<close> stands for any further
  instance of \<open>Exception\<close> a library call raises.  \<open>CancelledError\<close>
  (\<open>asyncio.CancelledError\<close>, raised at an \<open>await\<close> when the running task is
  cancelled) and \<open>KeyboardInterrupt\<close> derive from \<open>BaseException\<close> only: an
  \<open>except Exception\<close> clause does not catch them.
\<close>

datatype exn =
  KeyError | IndexError | TimeoutError | ProcessLookupError | UnicodeDecodeError
  | RuntimeError string | OtherException string
  | CancelledError | KeyboardInterrupt

text \<open>\<open>isinstance(e, Exception)\<close>\<close>

definition is_Exception :: "exn \<Rightarrow> bool" where
  "is_Exception e = (e \<noteq> CancelledError \<and> e \<noteq> KeyboardInterrupt)"

text \<open>
  A record written by \<open>logger\<close>: \<open>ERROR_exn m e\<close> is the message \<open>m\<close> followed by the
  text of the exception \<open>e\<close>.  A number formatted into a message is left out of it.
\<close>

datatype log_record = INFO string | ERROR string | ERROR_exn string exn

section \<open>The subscriber registry\<close>

text \<open>\<open>s.remove(x)\<close> raises \<open>KeyError\<close> when \<open>x\<close> is not a member.\<close>

definition set_remove :: "'a \<Rightarrow> 'a list \<Rightarrow> exn + 'a list" where
  "set_remove x s = (if x \<in> set s then Inr (removeAll x s) else Inl KeyError)"

text \<open>
  \<open>_websocket_handler\<close> runs in two parts, before and after \<open>await
  websocket.wait_closed()\<close>: \<open>self.clients.add(websocket)\<close> on connection, and
  \<open>self.clients.remove(websocket)\<close> in the \<open>finally\<close> block.  The second part returns
  the state and the exception that leaves the handler, if any.  The two log lines of
  the handler change nothing and are left out.
\<close>

definition websocket_handler_connect :: "'ws BettingSystem \<Rightarrow> 'ws \<Rightarrow> 'ws BettingSystem" where
  "websocket_handler_connect self websocket =
     self\<lparr>clients := set_add websocket (clients self)\<rparr>"

definition websocket_handler_disconnect ::
  "'ws BettingSystem \<Rightarrow> 'ws \<Rightarrow> 'ws BettingSystem \<times> exn option" where
  "websocket_handler_disconnect self websocket =
     (case set_remove websocket (clients self) of
        Inl e \<Rightarrow> (self, Some e)
      | Inr cs \<Rightarrow> (self\<lparr>clients := cs\<rparr>, None))"




section \<open>Broadcasting\<close>

text \<open>
  \<open>asyncio.gather(*tasks, return_exceptions=flag)\<close> on the outcomes of the awaited
  tasks (\<open>None\<close>: the task returned, \<open>Some e\<close>: it raised \<open>e\<close>).  With the flag set the
  outcomes are the result; without it the first exception is raised to the caller.
\<close>

definition gather :: "bool \<Rightarrow> exn option list \<Rightarrow> exn + exn option list" where
  "gather return_exceptions outcomes =
     (if return_exceptions then Inr outcomes
      else (case filter (\<lambda>r. r \<noteq> None) outcomes of
              [] \<Rightarrow> Inr outcomes
            | Some e # _ \<Rightarrow> Inl e
            | None # _ \<Rightarrow> Inr outcomes))"

text \<open>
  \<open>_broadcast(message)\<close>.  \<open>send client message\<close> is the outcome of awaiting
  \<open>client.send(json.dumps(message))\<close>: \<open>None\<close> when the payload was delivered,
  \<open>Some e\<close> when the send raised \<open>e\<close>.  The result is the state after the call and
  either the exception that leaves \<open>_broadcast\<close> or the outcomes of the sends, one per
  client.
\<close>

definition broadcast ::
  "('ws \<Rightarrow> 'm \<Rightarrow> exn option) \<Rightarrow> 'ws BettingSystem \<Rightarrow> 'm
     \<Rightarrow> 'ws BettingSystem \<times> (exn + exn option list)" where
  "broadcast send self message =
     (if clients self = [] then (self, Inr [])
      else (let tasks = map (\<lambda>client. send client message) (clients self)
            in (self, gather True tasks)))"

section \<open>Processing recognition results\<close>

text \<open>
  The parts of a streaming response the program reads, and the message it builds (a
  dict with the keys \<open>type\<close>, \<open>timestamp\<close>, \<open>text\<close>, \<open>keywords\<close>, \<open>is_final\<close>).
\<close>

record SpeechRecognitionAlternative =
  transcript :: string

record StreamingRecognitionResult =
  alternatives :: "SpeechRecognitionAlternative list"
  is_final :: bool

record StreamingRecognizeResponse =
  results :: "StreamingRecognitionResult list"

record 't message =
  msg_type :: string
  msg_timestamp :: 't
  msg_text :: string
  msg_keywords :: "string list"
  msg_is_final :: bool

text \<open>
  \<open>_process_stt_response\<close>: the loop over \<open>response.results\<close>.  The value is the list
  of messages for which \<open>asyncio.create_task(self._broadcast(message))\<close> is called, in
  order.  \<open>clock n\<close> is what the \<open>n\<close>-th call of \<open>time.time()\<close> returns.  A result
  without alternatives is skipped by \<open>continue\<close>.  The log line for a final result
  with keywords changes nothing and is left out.
\<close>

fun process_results ::
  "'ws BettingSystem \<Rightarrow> (nat \<Rightarrow> 't) \<Rightarrow> nat \<Rightarrow> StreamingRecognitionResult list \<Rightarrow> 't message list" where
  "process_results self clock n [] = []"
| "process_results self clock n (result # rest) =
     (case alternatives result of
        [] \<Rightarrow> process_results self clock n rest
      | alt # _ \<Rightarrow>
          (let detected_keywords = find_keywords self (transcript alt);
               message = \<lparr>msg_type = ''transcription'', msg_timestamp = clock n,
                          msg_text = transcript alt, msg_keywords = detected_keywords,
                          msg_is_final = is_final result\<rparr>
           in message # process_results self clock (Suc n) rest))"

definition process_stt_response ::
  "'ws BettingSystem \<Rightarrow> (nat \<Rightarrow> 't) \<Rightarrow> nat \<Rightarrow> StreamingRecognizeResponse \<Rightarrow> 't message list" where
  "process_stt_response self clock n response = process_results self clock n (results response)"

text \<open>
  The \<open>async for response in responses\<close> loop of \<open>_google_stt_stream\<close>.  Each step
  carries the value of \<open>self.is_running\<close> the loop reads when the response arrives.
\<close>

fun response_loop ::
  "'ws BettingSystem \<Rightarrow> (nat \<Rightarrow> 't) \<Rightarrow> nat \<Rightarrow> (bool \<times> StreamingRecognizeResponse) list
     \<Rightarrow> 't message list" where
  "response_loop self clock n [] = []"
| "response_loop self clock n ((running, response) # rest) =
     (if \<not> running then []
      else (let ms = process_stt_response self clock n response
            in ms @ response_loop self clock (n + length ms) rest))"

section \<open>The request stream\<close>

type_synonym bytes = "char list"

record StreamingRecognizeRequest =
  req_streaming_config :: "StreamingRecognitionConfig option"
  req_audio_content :: "bytes option"

text \<open>
  One iteration of the \<open>while self.is_running\<close> loop of \<open>request_generator\<close> is
  decided by the flag the loop test reads and by the outcome of
  \<open>await self.ffmpeg_process.stdout.read(8000)\<close>: some bytes (none at end of stream),
  cancellation, or another exception, which ends the generator.
\<close>

datatype read_outcome = Read bytes | ReadCancelled | ReadRaised exn

fun audio_requests :: "(bool \<times> read_outcome) list \<Rightarrow> StreamingRecognizeRequest list" where
  "audio_requests [] = []"
| "audio_requests ((running, outcome) # steps) =
     (if \<not> running then []
      else (case outcome of
              Read chunk \<Rightarrow>
                (if chunk = [] then []
                 else \<lparr>req_streaming_config = None, req_audio_content = Some chunk\<rparr>
                        # audio_requests steps)
            | ReadCancelled \<Rightarrow> []
            | ReadRaised e \<Rightarrow> []))"

text \<open>The requests the generator yields while the loop runs through \<open>steps\<close>.\<close>

definition request_generator ::
  "'ws BettingSystem \<Rightarrow> (bool \<times> read_outcome) list \<Rightarrow> StreamingRecognizeRequest list" where
  "request_generator self steps =
     \<lparr>req_streaming_config = Some (streaming_config self), req_audio_content = None\<rparr>
       # audio_requests steps"

section \<open>Resolving the stream URL\<close>

text \<open>\<open>s.strip()\<close>: leading and trailing whitespace removed.\<close>

definition str_strip :: "string \<Rightarrow> string" where
  "str_strip s = rev (dropWhile isspace (rev (dropWhile isspace s)))"

text \<open>
  \<open>s.split(sep)\<close> for a one-character separator: the pieces between the separators,
  empty ones included; the result always has at least one element.
\<close>

fun split_on_from :: "char \<Rightarrow> string \<Rightarrow> string \<Rightarrow> string list" where
  "split_on_from sep cur [] = [cur]"
| "split_on_from sep cur (c # cs) =
     (if c = sep then cur # split_on_from sep [] cs else split_on_from sep (cur @ [c]) cs)"

definition str_split_on :: "char \<Rightarrow> string \<Rightarrow> string list" where
  "str_split_on sep s = split_on_from sep [] s"

text \<open>\<open>xs[-1]\<close> raises \<open>IndexError\<close> on an empty list.\<close>

definition index_last :: "'a list \<Rightarrow> exn + 'a" where
  "index_last xs = (if xs = [] then Inl IndexError else Inr (last xs))"

text \<open>
  What one run of the resolver does, as \<open>_get_stream_url\<close> observes it: whether
  \<open>create_subprocess_exec\<close> raises; whether \<open>wait_for(process.communicate(), 15.0)\<close>
  raises (\<open>TimeoutError\<close> after 15 seconds) or returns; the exit status of the process;
  and what \<open>stdout.decode()\<close> and \<open>stderr.decode()\<close> give.
\<close>

record communicate_result =
  exit_status :: int
  stdout_decode :: "exn + string"
  stderr_decode :: "exn + string"

record yt_dlp_run =
  spawn_raises :: "exn option"
  communicate :: "exn + communicate_result"

text \<open>The body of the \<open>try\<close> block of \<open>_get_stream_url\<close>: an exception or the value returned.\<close>

definition get_stream_url_try :: "yt_dlp_run \<Rightarrow> (exn + string option) \<times> log_record list" where
  "get_stream_url_try run =
     (case spawn_raises run of
        Some e \<Rightarrow> (Inl e, [])
      | None \<Rightarrow>
          (case communicate run of
             Inl e \<Rightarrow> (Inl e, [])
           | Inr out \<Rightarrow>
               (if exit_status out \<noteq> 0
                then (case stderr_decode out of
                        Inl e \<Rightarrow> (Inl e, [])
                      | Inr msg \<Rightarrow> (Inr None, [ERROR (''yt-dlp error: '' @ msg)]))
                else (case stdout_decode out of
                        Inl e \<Rightarrow> (Inl e, [])
                      | Inr decoded \<Rightarrow>
                          (case index_last (str_split_on (CHR 0x0A) (str_strip decoded)) of
                             Inl e \<Rightarrow> (Inl e, [])
                           | Inr stream_url \<Rightarrow>
                               (Inr (Some stream_url), [INFO ''Successfully got stream URL.'']))))))"

text \<open>
  \<open>_get_stream_url\<close> with its two handlers, \<open>except asyncio.TimeoutError\<close> and
  \<open>except Exception\<close>, in this order.  An exception neither handler catches leaves
  the function: the result is then \<open>Inl e\<close>.
\<close>

definition get_stream_url :: "string \<Rightarrow> yt_dlp_run \<Rightarrow> (exn + string option) \<times> log_record list" where
  "get_stream_url youtube_url run =
     (let started = [INFO ''Getting direct stream URL from yt-dlp (15s timeout)...'']
      in (case get_stream_url_try run of
            (Inr v, logs) \<Rightarrow> (Inr v, started @ logs)
          | (Inl e, logs) \<Rightarrow>
              (if e = TimeoutError
               then (Inr None, started @ logs @ [ERROR ''yt-dlp timed out.''])
               else if is_Exception e
               then (Inr None, started @ logs @ [ERROR_exn ''Error getting stream URL: '' e])
               else (Inl e, started @ logs))))"

section \<open>The pipeline: start and stop\<close>

text \<open>
  What the program does to the outside, in order: log records, the WebSocket server
  opened and closed, the audio producer started and sent SIGTERM, the call of
  \<open>streaming_recognize\<close> that opens the recognition session, and the broadcast tasks
  created.
\<close>

datatype 't action =
  Log log_record
  | ServerStarted int
  | ProducerStarted "string list"
  | StreamingRecognizeCalled
  | TaskCreated "'t message"
  | ProducerTerminated
  | ServerClosed

text \<open>
  What the outside does during one call of \<open>start\<close>: whether \<open>websockets.serve\<close>
  raises; the run of the resolver; whether starting FFmpeg raises; the \<open>returncode\<close> of
  the FFmpeg process after \<open>asyncio.sleep(2)\<close> (\<open>None\<close>: still running) and what
  \<open>communicate()\<close> and \<open>stderr.decode()\<close> give if it has exited; whether
  \<open>streaming_recognize\<close> raises; the responses of the service, each with the value of
  \<open>is_running\<close> read on its arrival; whether the response stream ends with an
  exception; the \<open>returncode\<close> of the FFmpeg process when the stream has ended; and
  the clock.
\<close>

record 't environment =
  serve_raises :: "exn option"
  yt_dlp :: yt_dlp_run
  ffmpeg_spawn_raises :: "exn option"
  ffmpeg_returncode_after_sleep :: "int option"
  ffmpeg_stderr_decode :: "exn + string"
  recognize_raises :: "exn option"
  responses :: "(bool \<times> StreamingRecognizeResponse) list"
  stream_raises :: "exn option"
  ffmpeg_returncode_at_end :: "int option"
  clock :: "nat \<Rightarrow> 't"

text \<open>
  \<open>process.terminate()\<close> sends SIGTERM and returns; it does not wait, and
  \<open>returncode\<close> stays \<open>None\<close> until the event loop has observed the exit.  On a
  process that has exited asyncio may raise \<open>ProcessLookupError\<close>; the model raises it
  whenever \<open>returncode\<close> is set.
\<close>

definition terminate :: "process \<Rightarrow> exn + process" where
  "terminate p =
     (if returncode p = None then Inr (p\<lparr>sigterms := Suc (sigterms p)\<rparr>)
      else Inl ProcessLookupError)"

text \<open>\<open>stop()\<close>: the state after the call, what it did, and the exception it raises, if any.\<close>

definition stop :: "'ws BettingSystem \<Rightarrow> 'ws BettingSystem \<times> 't action list \<times> exn option" where
  "stop self =
     (let self1 = self\<lparr>is_running := False\<rparr>
      in (case ffmpeg_process self1 of
            None \<Rightarrow> (self1, [], None)
          | Some p \<Rightarrow>
              (if returncode p = None
               then (case terminate p of
                       Inl e \<Rightarrow> (self1, [], Some e)
                     | Inr p' \<Rightarrow>
                         (self1\<lparr>ffmpeg_process := Some p'\<rparr>,
                          [ProducerTerminated, Log (INFO ''FFmpeg process terminated.'')], None))
               else (self1, [], None))))"

text \<open>
  \<open>_start_ffmpeg_process(stream_url)\<close>.  The process object is stored in
  \<open>self.ffmpeg_process\<close> as soon as it is created; its \<open>returncode\<close> is the one read
  after the two seconds of sleep.
\<close>

definition start_ffmpeg_process ::
  "'ws BettingSystem \<Rightarrow> string \<Rightarrow> 't environment
     \<Rightarrow> 'ws BettingSystem \<times> 't action list \<times> exn option" where
  "start_ffmpeg_process self stream_url env =
     (let cmd = [''ffmpeg'', ''-i'', stream_url, ''-f'', ''s16le'', ''-ar'', ''16000'', ''-ac'', ''1'', ''-''];
          starting = Log (INFO ''Starting FFmpeg to capture audio stream...'')
      in (case ffmpeg_spawn_raises env of
            Some e \<Rightarrow> (self, [starting], Some e)
          | None \<Rightarrow>
              (let p = \<lparr>args = cmd, returncode = ffmpeg_returncode_after_sleep env, sigterms = 0\<rparr>;
                   self1 = self\<lparr>ffmpeg_process := Some p\<rparr>
               in (if returncode p \<noteq> None
                   then (case ffmpeg_stderr_decode env of
                           Inl e \<Rightarrow> (self1, [starting, ProducerStarted cmd], Some e)
                         | Inr msg \<Rightarrow>
                             (self1, [starting, ProducerStarted cmd],
                              Some (RuntimeError (''FFmpeg failed to start: '' @ msg))))
                   else (self1,
                         [starting, ProducerStarted cmd,
                          Log (INFO ''Audio stream capture started successfully.'')],
                         None)))))"

text \<open>
  \<open>_google_stt_stream()\<close>: \<open>streaming_recognize\<close> is called with the request
  generator, which the client library consumes, then the responses are processed.
  When the loop meets a cleared flag it breaks and the function returns normally; only
  a loop that runs through all the responses sees how the stream ends.  While the
  stream runs the FFmpeg process may exit, which sets its \<open>returncode\<close>.
\<close>

definition google_stt_stream ::
  "'ws BettingSystem \<Rightarrow> 't environment \<Rightarrow> 'ws BettingSystem \<times> 't action list \<times> exn option" where
  "google_stt_stream self env =
     (case recognize_raises env of
        Some e \<Rightarrow> (self, [StreamingRecognizeCalled], Some e)
      | None \<Rightarrow>
          (let created = response_loop self (clock env) 0 (responses env);
               exited = (\<lambda>p. (case returncode p of
                                None \<Rightarrow> p\<lparr>returncode := ffmpeg_returncode_at_end env\<rparr>
                              | Some rc \<Rightarrow> p));
               self1 = self\<lparr>ffmpeg_process := map_option exited (ffmpeg_process self)\<rparr>
           in (self1,
               [StreamingRecognizeCalled, Log (INFO ''Streaming audio to Google STT...'')]
                 @ map TaskCreated created,
               (if list_all fst (responses env) then stream_raises env else None))))"

text \<open>The \<open>try\<close> block of \<open>start\<close>: the state, what was done, and the exception raised, if any.\<close>

definition start_try ::
  "'ws BettingSystem \<Rightarrow> string \<Rightarrow> 't environment
     \<Rightarrow> 'ws BettingSystem \<times> 't action list \<times> exn option" where
  "start_try self youtube_url env =
     (case get_stream_url youtube_url (yt_dlp env) of
        (Inl e, logs) \<Rightarrow> (self, map Log logs, Some e)
      | (Inr None, logs) \<Rightarrow>
          (self, map Log logs, Some (RuntimeError ''Failed to get stream URL.''))
      | (Inr (Some stream_url), logs) \<Rightarrow>
          (if stream_url = []
           then (self, map Log logs, Some (RuntimeError ''Failed to get stream URL.''))
           else (case start_ffmpeg_process self stream_url env of
                   (self1, acts1, Some e) \<Rightarrow> (self1, map Log logs @ acts1, Some e)
                 | (self1, acts1, None) \<Rightarrow>
                     (case google_stt_stream self1 env of
                        (self2, acts2, exc) \<Rightarrow> (self2, map Log logs @ acts1 @ acts2, exc)))))"

text \<open>
  \<open>start(youtube_url)\<close>.  \<open>websockets.serve\<close> is awaited before the \<open>try\<close>, so its
  exception leaves \<open>start\<close> with the running flag set.  An instance of \<open>Exception\<close>
  raised in the \<open>try\<close> block is logged by \<open>except Exception\<close>; any other exception
  leaves \<open>start\<close> after the \<open>finally\<close> block, which calls \<open>stop()\<close> and closes the
  server.
\<close>

definition start ::
  "'ws BettingSystem \<Rightarrow> string \<Rightarrow> 't environment
     \<Rightarrow> 'ws BettingSystem \<times> 't action list \<times> exn option" where
  "start self youtube_url env =
     (let self1 = self\<lparr>is_running := True\<rparr>;
          pre = [Log (INFO ''--- Starting Real-Time Betting System (Google Streaming API) ---''),
                 Log (INFO (''YouTube URL: '' @ youtube_url))]
      in (case serve_raises env of
            Some e \<Rightarrow> (self1, pre, Some e)
          | None \<Rightarrow>
              (case start_try self1 youtube_url env of
                 (self2, acts, exc) \<Rightarrow>
                   (let served = [ServerStarted (ws_port self1), Log (INFO ''WebSocket server started on ws://localhost:'')];
                        failed = (case exc of
                                    None \<Rightarrow> []
                                  | Some e \<Rightarrow>
                                      (if is_Exception e
                                       then [Log (ERROR_exn ''System failed to start: '' e)]
                                       else []));
                        uncaught = (case exc of
                                      None \<Rightarrow> None
                                    | Some e \<Rightarrow> (if is_Exception e then None else Some e))
                    in (case stop self2 of
                          (self3, stopped, Some e) \<Rightarrow>
                            (self3, pre @ served @ acts @ failed @ stopped, Some e)
                        | (self3, stopped, None) \<Rightarrow>
                            (self3,
                             pre @ served @ acts @ failed @ stopped
                               @ [ServerClosed, Log (INFO ''--- System Shutting Down ---'')],
                             uncaught))))))"

section \<open>Predicates and inputs used in the statements\<close>

text \<open>The text after the last newline of \<open>s\<close>, all of \<open>s\<close> when it has none.\<close>

definition last_line :: "string \<Rightarrow> string" where
  "last_line s = rev (takeWhile (\<lambda>c. c \<noteq> CHR 0x0A) (rev s))"



text \<open>
  The system holds no producer that is alive and was never told to end: there is no
  process, or it has exited, or it was sent SIGTERM.  This is so when the system is
  built and after every call of \<open>start\<close> that ran alone.
\<close>

definition producer_released :: "'ws BettingSystem \<Rightarrow> bool" where
  "producer_released self =
     (case ffmpeg_process self of
        None \<Rightarrow> True
      | Some p \<Rightarrow> returncode p \<noteq> None \<or> 0 < sigterms p)"

text \<open>
  A system in the middle of a run (flag set, FFmpeg alive), and an outside in which
  the resolver prints a URL, FFmpeg starts and keeps running, and the service sends one
  response.
\<close>

definition running_system :: "nat BettingSystem" where
  "running_system =
     (BettingSystem_init [''bet'', ''odds''] 8765)
       \<lparr>is_running := True,
        ffmpeg_process := Some \<lparr>args = [''ffmpeg''], returncode = None, sigterms = 0\<rparr>\<rparr>"

text \<open>The same system built with \<open>ws_port = 0\<close>: every \<open>websockets.serve\<close> binds a free port.\<close>

definition running_system_any_port :: "nat BettingSystem" where
  "running_system_any_port =
     (BettingSystem_init [''bet'', ''odds''] 0)
       \<lparr>is_running := True,
        ffmpeg_process := Some \<lparr>args = [''ffmpeg''], returncode = None, sigterms = 0\<rparr>\<rparr>"

definition good_environment :: "nat environment" where
  "good_environment =
     \<lparr>serve_raises = None,
      yt_dlp = \<lparr>spawn_raises = None,
                communicate = Inr \<lparr>exit_status = 0,
                                    stdout_decode = Inr ''https://a/video.m3u8'',
                                    stderr_decode = Inr []\<rparr>\<rparr>,
      ffmpeg_spawn_raises = None,
      ffmpeg_returncode_after_sleep = None,
      ffmpeg_stderr_decode = Inr [],
      recognize_raises = None,
      responses = [(True, \<lparr>results = [\<lparr>alternatives = [\<lparr>transcript = ''place your bet''\<rparr>],
                                         is_final = True\<rparr>]\<rparr>)],
      stream_raises = None,
      ffmpeg_returncode_at_end = None,
      clock = (\<lambda>n. n)\<rparr>"

section \<open>Lemmas on strings\<close>

lemma of_char_lower_char:
  "(of_char (lower_char c) :: nat) =
     (if (65 \<le> (of_char c :: nat) \<and> (of_char c :: nat) \<le> 90)
         \<or> (192 \<le> (of_char c :: nat) \<and> (of_char c :: nat) \<le> 222 \<and> (of_char c :: nat) \<noteq> 215)
      then of_char c + 32 else of_char c)"
  by (simp add: lower_char_def Let_def)

lemma isspace_lower_char: "isspace (lower_char c) = isspace c"
  unfolding isspace_def of_char_lower_char by auto

lemma lower_char_eq_dot: "(lower_char c = CHR ''.'') = (c = CHR ''.'')"
proof -
  have "(lower_char c = CHR ''.'') = ((of_char (lower_char c) :: nat) = of_char CHR ''.'')"
    by (simp only: of_char_eq_iff)
  also have "\<dots> = ((of_char c :: nat) = of_char CHR ''.'')"
    unfolding of_char_lower_char by auto
  also have "\<dots> = (c = CHR ''.'')"
    by (simp only: of_char_eq_iff)
  finally show ?thesis .
qed

lemma lower_char_eq_comma: "(lower_char c = CHR '','') = (c = CHR '','')"
proof -
  have "(lower_char c = CHR '','') = ((of_char (lower_char c) :: nat) = of_char CHR '','')"
    by (simp only: of_char_eq_iff)
  also have "\<dots> = ((of_char c :: nat) = of_char CHR '','')"
    unfolding of_char_lower_char by auto
  also have "\<dots> = (c = CHR '','')"
    by (simp only: of_char_eq_iff)
  finally show ?thesis .
qed

lemma strip_punct_replace:
  "str_replace_empty CHR '','' (str_replace_empty CHR ''.'' s) = strip_punct s"
  by (simp add: str_replace_empty_def strip_punct_def)

lemma strip_punct_lower: "strip_punct (str_lower s) = str_lower (strip_punct s)"
  by (induction s) (simp_all add: strip_punct_def str_lower_def lower_char_eq_dot lower_char_eq_comma)

lemma set_find_loop: "set (find_loop kws words found) = set found \<union> (set words \<inter> set kws)"
  by (induction words arbitrary: found) auto

lemma find_keywords_tokens:
  "find_keywords self txt = remdups (find_loop (self_keywords self) (normalized_tokens txt) [])"
  by (simp add: find_keywords_def list_of_def set_of_def normalized_tokens_def strip_punct_replace)

lemma split_from_map:
  "(\<And>c. isspace (f c) = isspace c) \<Longrightarrow> map (map f) (split_from cur s) = split_from (map f cur) (map f s)"
  by (induction s arbitrary: cur) auto

lemma split_from_filter:
  "(\<And>c. isspace c \<Longrightarrow> p c) \<Longrightarrow>
   filter (\<lambda>w. w \<noteq> []) (map (filter p) (split_from cur s)) = split_from (filter p cur) (filter p s)"
  by (induction s arbitrary: cur) simp_all

lemma isspace_not_punct: "isspace c \<Longrightarrow> c \<noteq> CHR ''.'' \<and> c \<noteq> CHR '',''"
  by (auto simp: isspace_def)

lemma normalized_tokens_alt:
  "normalized_tokens txt =
     filter (\<lambda>w. w \<noteq> []) (map (\<lambda>t. strip_punct (str_lower t)) (str_split txt))"
proof -
  have "filter (\<lambda>w. w \<noteq> []) (map (\<lambda>t. strip_punct (str_lower t)) (str_split txt))
        = filter (\<lambda>w. w \<noteq> []) (map strip_punct (map (map lower_char) (split_from [] txt)))"
    by (simp add: str_split_def str_lower_def comp_def)
  also have "map (map lower_char) (split_from [] txt) = split_from [] (map lower_char txt)"
    using split_from_map [of lower_char "[]" "txt"] by (simp add: isspace_lower_char)
  also have "filter (\<lambda>w. w \<noteq> []) (map strip_punct (split_from [] (map lower_char txt)))
        = split_from [] (strip_punct (map lower_char txt))"
    using split_from_filter [of "\<lambda>c. c \<noteq> CHR ''.'' \<and> c \<noteq> CHR '',''" "[]" "map lower_char txt"]
      isspace_not_punct
    unfolding strip_punct_def [abs_def] by simp
  finally show ?thesis
    by (simp add: normalized_tokens_def str_split_def str_lower_def)
qed

section \<open>The keyword matcher\<close>

text \<open>
  Claim C1.  For every text the matcher returns, as a set, exactly the normalized tokens
  of the text (lowercased, every \<open>.\<close> and \<open>,\<close> removed, split on whitespace) that
  are members of the system's keyword set; the returned list has no duplicates and is a
  subset of the keyword set; it is empty for the empty text and for a text none of whose
  tokens is a keyword.
\<close>

theorem find_keywords_spec:
  "set (find_keywords self txt) = set (normalized_tokens txt) \<inter> set (self_keywords self)
   \<and> distinct (find_keywords self txt)
   \<and> set (find_keywords self txt) \<subseteq> set (self_keywords self)
   \<and> find_keywords self [] = []
   \<and> ((\<forall>w \<in> set (normalized_tokens txt). w \<notin> set (self_keywords self))
        \<longrightarrow> find_keywords self txt = [])"
proof -
  have s: "set (find_keywords self txt) = set (normalized_tokens txt) \<inter> set (self_keywords self)"
    by (simp add: find_keywords_tokens set_find_loop)
  have e: "find_keywords self [] = []"
    by (simp add: find_keywords_tokens normalized_tokens_def str_split_def strip_punct_def str_lower_def)
  have n: "(\<forall>w \<in> set (normalized_tokens txt). w \<notin> set (self_keywords self))
        \<longrightarrow> find_keywords self txt = []"
  proof
    assume "\<forall>w \<in> set (normalized_tokens txt). w \<notin> set (self_keywords self)"
    then have "set (find_keywords self txt) = {}" unfolding s by blast
    then show "find_keywords self txt = []" by simp
  qed
  show ?thesis using s e n by (simp add: find_keywords_tokens)
qed

theorem find_keywords_spec_witness:
  "normalized_tokens ''Hello there, world.'' = [''hello'', ''there'', ''world'']
   \<and> self_keywords (BettingSystem_init [''Bet'', ''odds''] 8765 :: nat BettingSystem) = [''bet'', ''odds'']
   \<and> find_keywords (BettingSystem_init [''Bet'', ''odds''] 8765 :: nat BettingSystem) ''Hello there, world.'' = []"
proof -
  have t: "normalized_tokens ''Hello there, world.'' = [''hello'', ''there'', ''world'']"
    by code_simp
  have k: "self_keywords (BettingSystem_init [''Bet'', ''odds''] 8765 :: nat BettingSystem) = [''bet'', ''odds'']"
    by code_simp
  have h: "\<forall>w \<in> set (normalized_tokens ''Hello there, world.'').
             w \<notin> set (self_keywords (BettingSystem_init [''Bet'', ''odds''] 8765 :: nat BettingSystem))"
    unfolding t k by simp
  show ?thesis
    using t k h find_keywords_spec [of "BettingSystem_init [''Bet'', ''odds''] 8765 :: nat BettingSystem"
        "''Hello there, world.''"]
    by blast
qed

text \<open>
  Claim C5, as amended.  Both sides are lowercased, but \<open>.\<close> and \<open>,\<close> are removed
  from the transcript only: \<open>__init__\<close> lowercases the configured words and leaves their
  punctuation in place.  A word \<open>w\<close> is reported for a text exactly when it is the
  non-empty stripped, lowercased form of a whitespace-separated token of the text and
  the lowercased form of a configured keyword.
\<close>

theorem keyword_match_iff:
  "w \<in> set (find_keywords (BettingSystem_init kws port) txt) \<longleftrightarrow>
     w \<noteq> [] \<and> (\<exists>t \<in> set (str_split txt). w = strip_punct (str_lower t))
            \<and> (\<exists>k \<in> set kws. w = str_lower k)"
  by (auto simp: find_keywords_tokens set_find_loop normalized_tokens_alt BettingSystem_init_def set_of_def)

theorem keyword_match_iff_witness:
  "''odds'' \<in> set (find_keywords (BettingSystem_init [''Bet'', ''ODDS''] 8765 :: nat BettingSystem) ''The Odds, are good.'')"
proof -
  have "''odds'' \<noteq> [] \<and> (\<exists>t \<in> set (str_split ''The Odds, are good.''). ''odds'' = strip_punct (str_lower t))
            \<and> (\<exists>k \<in> set [''Bet'', ''ODDS'']. ''odds'' = str_lower k)"
    by code_simp
  then show ?thesis
    using keyword_match_iff [of "''odds''" "[''Bet'', ''ODDS'']" 8765 "''The Odds, are good.''"]
    by blast
qed

text \<open>
  Claim C5 as stated fails: the token \<open>US\<close> and the configured keyword \<open>U.S.\<close> have
  the same stripped, lowercased form, and the matcher reports nothing.
\<close>

theorem keyword_punct_counterexample:
  "strip_punct (str_lower ''US'') = strip_punct (str_lower ''U.S.'')
   \<and> ''US'' \<in> set (str_split ''the US market'')
   \<and> find_keywords (BettingSystem_init [''U.S.''] 8765 :: nat BettingSystem) ''the US market'' = []"
  by code_simp

section \<open>The subscriber registry and the broadcast\<close>

lemma set_remove_nonmember: "x \<notin> set s \<Longrightarrow> set_remove x s = Inl KeyError"
  by (simp add: set_remove_def)








text \<open>
  Claim C3, as amended.  When exactly one of the registered subscribers' sends fails,
  the broadcast awaits a send for every subscriber, all other sends deliver, no
  exception leaves the broadcast, and the state is the one before the call: the
  broadcast unregisters nobody, and the failing subscriber is still in the active set.
\<close>

theorem broadcast_one_failure:
  assumes "length (filter (\<lambda>c. send c message \<noteq> None) (clients self)) = 1"
  shows "\<exists>outcomes. broadcast send self message = (self, Inr outcomes)
     \<and> outcomes = map (\<lambda>c. send c message) (clients self)
     \<and> length (filter (\<lambda>r. r = None) outcomes) = length (clients self) - 1
     \<and> length (filter (\<lambda>r. r \<noteq> None) outcomes) = 1
     \<and> clients (fst (broadcast send self message)) = clients self"
proof -
  let ?out = "map (\<lambda>c. send c message) (clients self)"
  from assms have ne: "clients self \<noteq> []" by auto
  then have b: "broadcast send self message = (self, Inr ?out)"
    by (simp add: broadcast_def gather_def)
  have f: "length (filter (\<lambda>r. r \<noteq> None) ?out) = 1"
    using assms by (simp add: filter_map comp_def)
  have "length (filter (\<lambda>r. r = None) ?out) + length (filter (\<lambda>r. \<not> r = None) ?out) = length ?out"
    by (rule sum_length_filter_compl)
  with f have s: "length (filter (\<lambda>r. r = None) ?out) = length (clients self) - 1"
    by simp
  show ?thesis using b f s by simp
qed

theorem broadcast_one_failure_witness:
  "\<exists>outcomes. broadcast (\<lambda>(c::nat) (m::string). if c = 2 then Some (OtherException ''connection closed'') else None)
        ((BettingSystem_init [] 8765)\<lparr>clients := [1, 2, 3]\<rparr>) ''event''
      = ((BettingSystem_init [] 8765)\<lparr>clients := [1, 2, 3]\<rparr>, Inr outcomes)
     \<and> length (filter (\<lambda>r. r = None) outcomes) = 2"
  using broadcast_one_failure [of "\<lambda>(c::nat) (m::string). if c = 2 then Some (OtherException ''connection closed'') else None"
      "''event''" "(BettingSystem_init [] 8765)\<lparr>clients := [1, 2, 3]\<rparr>"]
  by simp

text \<open>
  Claim C3 as stated fails: with subscribers 1, 2, 3 and a failing send to 2, the
  broadcast delivers to 1 and 3, and 2 is still registered afterwards.
\<close>

theorem broadcast_unregister_counterexample:
  "broadcast (\<lambda>(c::nat) (m::string). if c = 2 then Some (OtherException ''connection closed'') else None)
        ((BettingSystem_init [] 8765)\<lparr>clients := [1, 2, 3]\<rparr>) ''event''
      = ((BettingSystem_init [] 8765)\<lparr>clients := [1, 2, 3]\<rparr>,
         Inr [None, Some (OtherException ''connection closed''), None])
   \<and> 2 \<in> set (clients (fst (broadcast (\<lambda>(c::nat) (m::string). if c = 2 then Some (OtherException ''connection closed'') else None)
        ((BettingSystem_init [] 8765)\<lparr>clients := [1, 2, 3]\<rparr>) ''event'')))"
  by (simp add: broadcast_def gather_def)

section \<open>One broadcast per result with an alternative\<close>

lemma length_process_results:
  "length (process_results self clk n rs) = length (filter (\<lambda>r. alternatives r \<noteq> []) rs)"
  by (induction rs arbitrary: n) (auto simp: Let_def split: list.splits)

lemma is_final_process_results:
  "map msg_is_final (process_results self clk n rs) = map is_final (filter (\<lambda>r. alternatives r \<noteq> []) rs)"
  by (induction rs arbitrary: n) (auto simp: Let_def split: list.splits)

lemma length_response_loop:
  "length (response_loop self clk n (map (Pair True) rs))
     = length (filter (\<lambda>r. alternatives r \<noteq> []) (concat (map results rs)))"
  by (induction rs arbitrary: n) (simp_all add: Let_def process_stt_response_def length_process_results)

lemma is_final_response_loop:
  "map msg_is_final (response_loop self clk n (map (Pair True) rs))
     = map is_final (filter (\<lambda>r. alternatives r \<noteq> []) (concat (map results rs)))"
  by (induction rs arbitrary: n) (simp_all add: Let_def process_stt_response_def is_final_process_results)

text \<open>
  Claim C2, as amended.  Processing a response creates one broadcast task for every
  result that has at least one alternative, whether or not a keyword matched, in the
  order of the results, and each message carries the \<open>is_final\<close> flag of its result;
  a result without alternatives is skipped.  The same holds for a sequence of responses
  that all arrive while the system is running.
\<close>

theorem broadcast_per_result_with_alternative:
  "length (process_stt_response self clk n response)
     = length (filter (\<lambda>r. alternatives r \<noteq> []) (results response))
   \<and> map msg_is_final (process_stt_response self clk n response)
     = map is_final (filter (\<lambda>r. alternatives r \<noteq> []) (results response))
   \<and> length (response_loop self clk n (map (Pair True) rs))
     = length (filter (\<lambda>r. alternatives r \<noteq> []) (concat (map results rs)))
   \<and> map msg_is_final (response_loop self clk n (map (Pair True) rs))
     = map is_final (filter (\<lambda>r. alternatives r \<noteq> []) (concat (map results rs)))"
  by (simp add: process_stt_response_def length_process_results is_final_process_results
      length_response_loop is_final_response_loop)

theorem broadcast_per_result_witness:
  "map msg_is_final (process_stt_response (BettingSystem_init [''bet''] 8765 :: nat BettingSystem) (\<lambda>n. n) 0
        \<lparr>results = [\<lparr>alternatives = [\<lparr>transcript = ''hello''\<rparr>], is_final = False\<rparr>,
                     \<lparr>alternatives = [], is_final = True\<rparr>,
                     \<lparr>alternatives = [\<lparr>transcript = ''place your bet''\<rparr>], is_final = True\<rparr>]\<rparr>)
     = [False, True]"
  using broadcast_per_result_with_alternative [of "BettingSystem_init [''bet''] 8765 :: nat BettingSystem" "\<lambda>n. n" 0
        "\<lparr>results = [\<lparr>alternatives = [\<lparr>transcript = ''hello''\<rparr>], is_final = False\<rparr>,
                     \<lparr>alternatives = [], is_final = True\<rparr>,
                     \<lparr>alternatives = [\<lparr>transcript = ''place your bet''\<rparr>], is_final = True\<rparr>]\<rparr>"]
  by simp

text \<open>
  Claim C2 as stated fails: a response whose single result has no alternative creates
  no broadcast.
\<close>

theorem broadcast_per_result_counterexample:
  "length (results \<lparr>results = [\<lparr>alternatives = [], is_final = True\<rparr>]\<rparr>) = 1
   \<and> process_stt_response (BettingSystem_init [''bet''] 8765 :: nat BettingSystem) (\<lambda>n. n) 0
        \<lparr>results = [\<lparr>alternatives = [], is_final = True\<rparr>]\<rparr> = []"
  by (simp add: process_stt_response_def)

section \<open>The configuration and the keyword set never change\<close>

text \<open>
  \<open>__init__\<close> stores the streaming configuration and the keyword set, and no
  operation of the system assigns to either afterwards.
\<close>

lemma init_config:
  "streaming_config (BettingSystem_init kws port) = get_streaming_config"
  by (simp add: BettingSystem_init_def)

lemma handler_keeps_config:
  "streaming_config (websocket_handler_connect self w) = streaming_config self
   \<and> self_keywords (websocket_handler_connect self w) = self_keywords self
   \<and> streaming_config (fst (websocket_handler_disconnect self w)) = streaming_config self
   \<and> self_keywords (fst (websocket_handler_disconnect self w)) = self_keywords self"
  by (simp add: websocket_handler_connect_def websocket_handler_disconnect_def set_remove_def)

lemma stop_keeps_config:
  "(stop self :: 'ws BettingSystem \<times> 't action list \<times> exn option) = (self', acts, exc) \<Longrightarrow>
     streaming_config self' = streaming_config self \<and> self_keywords self' = self_keywords self"
  by (cases "ffmpeg_process self") (auto simp: stop_def terminate_def Let_def split: if_splits)

lemma start_try_keeps_config:
  "start_try self youtube_url env = (self', acts, exc) \<Longrightarrow>
     streaming_config self' = streaming_config self \<and> self_keywords self' = self_keywords self"
  by (auto simp: start_try_def start_ffmpeg_process_def google_stt_stream_def Let_def
      split: prod.splits sum.splits option.splits if_splits)

lemma start_keeps_config:
  assumes "start self youtube_url (env :: 't environment) = (self', acts, exc)"
  shows "streaming_config self' = streaming_config (self :: 'ws BettingSystem)
     \<and> self_keywords self' = self_keywords self"
proof (cases "serve_raises env")
  case (Some e)
  with assms show ?thesis by (auto simp: start_def)
next
  case None
  obtain s2 a2 e2 where t: "start_try (self\<lparr>is_running := True\<rparr>) youtube_url env = (s2, a2, e2)"
    by (cases "start_try (self\<lparr>is_running := True\<rparr>) youtube_url env") auto
  obtain s3 a3 e3 where s: "(stop s2 :: 'ws BettingSystem \<times> 't action list \<times> exn option) = (s3, a3, e3)"
    by (cases "stop s2 :: 'ws BettingSystem \<times> 't action list \<times> exn option") auto
  have "self' = s3"
    using assms None t s by (cases e3) (auto simp: start_def Let_def)
  then show ?thesis
    using start_try_keeps_config [OF t] stop_keeps_config [OF s] by simp
qed

section \<open>The request stream starts with the configuration\<close>

lemma audio_requests_audio_only:
  "r \<in> set (audio_requests steps) \<Longrightarrow>
     req_streaming_config r = None \<and> (\<exists>chunk. chunk \<noteq> [] \<and> req_audio_content r = Some chunk)"
  by (induction steps rule: audio_requests.induct) (auto split: if_splits read_outcome.splits)

text \<open>
  Claim C6.  For a system whose streaming configuration is the one \<open>__init__\<close> builds,
  the first request of every request sequence carries that configuration (sample rate
  16000, LINEAR16, language code en-US, interim results enabled) and no audio, and every
  later request carries a non-empty audio payload and no configuration; so no audio
  request comes before the configuration.
\<close>

theorem request_generator_config_first:
  assumes "streaming_config self = get_streaming_config"
  shows "\<exists>first rest. request_generator self steps = first # rest
     \<and> req_streaming_config first = Some (streaming_config self)
     \<and> req_audio_content first = None
     \<and> sample_rate_hertz (config (streaming_config self)) = 16000
     \<and> encoding (config (streaming_config self)) = LINEAR16
     \<and> language_code (config (streaming_config self)) = ''en-US''
     \<and> interim_results (streaming_config self) = True
     \<and> (\<forall>r \<in> set rest. req_streaming_config r = None
            \<and> (\<exists>chunk. chunk \<noteq> [] \<and> req_audio_content r = Some chunk))"
  using assms audio_requests_audio_only
  by (simp add: request_generator_def get_streaming_config_def)

theorem request_generator_config_first_witness:
  "request_generator ((BettingSystem_init [''bet''] 8765 :: nat BettingSystem)\<lparr>is_running := True\<rparr>)
       [(True, Read ''ab''), (True, Read ''cd''), (True, Read []), (True, Read ''ef'')]
     = [\<lparr>req_streaming_config = Some get_streaming_config, req_audio_content = None\<rparr>,
        \<lparr>req_streaming_config = None, req_audio_content = Some ''ab''\<rparr>,
        \<lparr>req_streaming_config = None, req_audio_content = Some ''cd''\<rparr>]
   \<and> (\<exists>first rest. request_generator ((BettingSystem_init [''bet''] 8765 :: nat BettingSystem)\<lparr>is_running := True\<rparr>)
       [(True, Read ''ab''), (True, Read ''cd''), (True, Read []), (True, Read ''ef'')] = first # rest
       \<and> req_audio_content first = None
       \<and> (\<forall>r \<in> set rest. req_streaming_config r = None))"
proof -
  have h: "streaming_config ((BettingSystem_init [''bet''] 8765 :: nat BettingSystem)\<lparr>is_running := True\<rparr>)
             = get_streaming_config"
    by (simp add: BettingSystem_init_def)
  have e: "request_generator ((BettingSystem_init [''bet''] 8765 :: nat BettingSystem)\<lparr>is_running := True\<rparr>)
       [(True, Read ''ab''), (True, Read ''cd''), (True, Read []), (True, Read ''ef'')]
     = [\<lparr>req_streaming_config = Some get_streaming_config, req_audio_content = None\<rparr>,
        \<lparr>req_streaming_config = None, req_audio_content = Some ''ab''\<rparr>,
        \<lparr>req_streaming_config = None, req_audio_content = Some ''cd''\<rparr>]"
    by (simp add: request_generator_def BettingSystem_init_def)
  show ?thesis
    using e request_generator_config_first [OF h, of "[(True, Read ''ab''), (True, Read ''cd''), (True, Read []), (True, Read ''ef'')]"]
    by blast
qed

section \<open>Stopping\<close>

text \<open>
  Claim C9, as amended.  \<open>stop\<close> never raises and always clears the running flag.  It
  sends SIGTERM exactly when a subprocess exists whose \<open>returncode\<close> is \<open>None\<close>; with
  no subprocess, or with one that has exited, it does nothing else and leaves the
  handle as it is.  A second call in a row also raises nothing and leaves the flag
  cleared, and it sends SIGTERM again exactly when the first call did: \<open>terminate()\<close>
  does not set \<open>returncode\<close>.
\<close>

theorem stop_spec:
  "\<exists>self' acts.
     (stop self :: 'ws BettingSystem \<times> 't action list \<times> exn option) = (self', acts, None)
     \<and> is_running self' = False
     \<and> (ProducerTerminated \<in> set acts
          \<longleftrightarrow> (\<exists>p. ffmpeg_process self = Some p \<and> returncode p = None))
     \<and> (ffmpeg_process self = None \<longrightarrow> acts = [] \<and> ffmpeg_process self' = None)
     \<and> (\<forall>p rc. ffmpeg_process self = Some p \<and> returncode p = Some rc
            \<longrightarrow> acts = [] \<and> ffmpeg_process self' = Some p)
     \<and> (\<forall>p. ffmpeg_process self = Some p \<and> returncode p = None
            \<longrightarrow> ffmpeg_process self' = Some (p\<lparr>sigterms := Suc (sigterms p)\<rparr>))
     \<and> (\<exists>self'' acts'.
           (stop self' :: 'ws BettingSystem \<times> 't action list \<times> exn option) = (self'', acts', None)
           \<and> is_running self'' = False
           \<and> (ProducerTerminated \<in> set acts' \<longleftrightarrow> ProducerTerminated \<in> set acts))"
  by (cases "ffmpeg_process self") (auto simp: stop_def terminate_def Let_def)

theorem stop_spec_witness:
  "\<exists>self'. (stop (BettingSystem_init [''bet''] 8765 :: nat BettingSystem)
               :: nat BettingSystem \<times> nat action list \<times> exn option) = (self', [], None)
          \<and> is_running self' = False \<and> ffmpeg_process self' = None"
proof -
  have h: "ffmpeg_process (BettingSystem_init [''bet''] 8765 :: nat BettingSystem) = None"
    by (simp add: BettingSystem_init_def)
  show ?thesis
    using h stop_spec [of "BettingSystem_init [''bet''] 8765 :: nat BettingSystem", where ?'t = nat]
    by auto
qed

text \<open>
  Claim C9 as stated fails: on a system whose FFmpeg process is alive, the second of two
  calls of \<open>stop\<close> in a row terminates the process once more.
\<close>

theorem stop_twice_counterexample:
  "(case (stop running_system :: nat BettingSystem \<times> nat action list \<times> exn option) of
      (self1, acts1, exc1) \<Rightarrow>
        (stop self1 :: nat BettingSystem \<times> nat action list \<times> exn option)
          = (self1\<lparr>ffmpeg_process := Some \<lparr>args = [''ffmpeg''], returncode = None, sigterms = 2\<rparr>\<rparr>,
             [ProducerTerminated, Log (INFO ''FFmpeg process terminated.'')], None))"
  by (simp add: stop_def terminate_def running_system_def BettingSystem_init_def Let_def)

section \<open>Resolving the stream URL never raises\<close>

lemma split_on_from_not_Nil: "split_on_from sep cur s \<noteq> []"
  by (induction s arbitrary: cur) auto

lemma takeWhile_rev_absent:
  "sep \<notin> set s \<Longrightarrow> takeWhile (\<lambda>c. c \<noteq> sep) (rev s @ ys) = rev s @ takeWhile (\<lambda>c. c \<noteq> sep) ys"
  by (rule takeWhile_append2) auto

lemma takeWhile_rev_present:
  "sep \<in> set s \<Longrightarrow> takeWhile (\<lambda>c. c \<noteq> sep) (rev s @ ys) = takeWhile (\<lambda>c. c \<noteq> sep) (rev s)"
  by (rule takeWhile_append1 [of sep]) auto

lemma last_split_on_from:
  "last (split_on_from sep cur s)
     = (if sep \<in> set s then rev (takeWhile (\<lambda>c. c \<noteq> sep) (rev s)) else cur @ s)"
  by (induction s arbitrary: cur)
     (simp_all add: split_on_from_not_Nil takeWhile_rev_absent takeWhile_rev_present)

lemma takeWhile_all_absent:
  "sep \<notin> set s \<Longrightarrow> takeWhile (\<lambda>c. c \<noteq> sep) (rev s) = rev s"
  by auto

lemma index_last_split_on:
  "index_last (str_split_on (CHR 0x0A) s) = Inr (last_line s)"
proof -
  have "last (split_on_from (CHR 0x0A) [] s) = last_line s"
    unfolding last_split_on_from last_line_def by (simp add: takeWhile_all_absent)
  then show ?thesis
    by (simp add: index_last_def str_split_on_def split_on_from_not_Nil)
qed

lemma is_Exception_TimeoutError: "is_Exception TimeoutError"
  by (simp add: is_Exception_def)


text \<open>
  Claim C10, as amended.  \<open>_get_stream_url\<close> returns \<open>None\<close> whenever an instance of
  \<open>Exception\<close> is raised while the resolver is started or awaited (the timeout
  included) or while its output is decoded, and whenever the resolver exits with a
  non-zero status.  On success it returns the last line of the resolver's output after
  the whitespace around the whole output has been removed; whitespace at the start of
  that line stays when other lines come before it.  The only exceptions that leave the
  function are those outside the \<open>Exception\<close> hierarchy: a cancellation of the task
  or a keyboard interrupt raised at one of its awaits passes both handlers.
\<close>

theorem get_stream_url_outcomes:
  "(\<forall>e. spawn_raises run = Some e \<and> is_Exception e
        \<longrightarrow> fst (get_stream_url youtube_url run) = Inr None)
   \<and> (\<forall>e. spawn_raises run = None \<and> communicate run = Inl e \<and> is_Exception e
        \<longrightarrow> fst (get_stream_url youtube_url run) = Inr None)
   \<and> (\<forall>out. spawn_raises run = None \<and> communicate run = Inr out \<and> exit_status out \<noteq> 0
          \<and> (\<forall>e. stderr_decode out = Inl e \<longrightarrow> is_Exception e)
        \<longrightarrow> fst (get_stream_url youtube_url run) = Inr None)
   \<and> (\<forall>out e. spawn_raises run = None \<and> communicate run = Inr out \<and> exit_status out = 0
          \<and> stdout_decode out = Inl e \<and> is_Exception e
        \<longrightarrow> fst (get_stream_url youtube_url run) = Inr None)
   \<and> (\<forall>out decoded. spawn_raises run = None \<and> communicate run = Inr out \<and> exit_status out = 0
          \<and> stdout_decode out = Inr decoded
        \<longrightarrow> fst (get_stream_url youtube_url run) = Inr (Some (last_line (str_strip decoded))))
   \<and> (\<forall>e. spawn_raises run = Some e \<and> \<not> is_Exception e
        \<longrightarrow> fst (get_stream_url youtube_url run) = Inl e)
   \<and> (\<forall>e. spawn_raises run = None \<and> communicate run = Inl e \<and> \<not> is_Exception e
        \<longrightarrow> fst (get_stream_url youtube_url run) = Inl e)
   \<and> (\<forall>e. fst (get_stream_url youtube_url run) = Inl e \<longrightarrow> \<not> is_Exception e)"
proof -
  have t: "\<And>e. \<not> is_Exception e \<Longrightarrow> e \<noteq> TimeoutError"
    by (auto simp: is_Exception_def)
  show ?thesis
    by (cases "spawn_raises run"; cases "communicate run")
       (auto simp: get_stream_url_def get_stream_url_try_def index_last_split_on Let_def
          is_Exception_TimeoutError dest: t split: sum.splits)
qed

theorem get_stream_url_outcomes_witness:
  "fst (get_stream_url ''https://youtu.be/x''
      \<lparr>spawn_raises = None,
       communicate = Inr \<lparr>exit_status = 0,
                           stdout_decode = Inr (''https://a/1'' @ [CHR 0x0A] @ ''https://a/2  '' @ [CHR 0x0A]),
                           stderr_decode = Inr []\<rparr>\<rparr>)
     = Inr (Some ''https://a/2'')
   \<and> fst (get_stream_url ''https://youtu.be/x'' \<lparr>spawn_raises = None, communicate = Inl TimeoutError\<rparr>) = Inr None"
proof -
  have l: "last_line (str_strip (''https://a/1'' @ [CHR 0x0A] @ ''https://a/2  '' @ [CHR 0x0A])) = ''https://a/2''"
    by code_simp
  note T = get_stream_url_outcomes [where youtube_url = "''https://youtu.be/x''"
      and run = "\<lparr>spawn_raises = None,
       communicate = Inr \<lparr>exit_status = 0,
                           stdout_decode = Inr (''https://a/1'' @ [CHR 0x0A] @ ''https://a/2  '' @ [CHR 0x0A]),
                           stderr_decode = Inr []\<rparr>\<rparr>"]
  have g: "fst (get_stream_url ''https://youtu.be/x''
      \<lparr>spawn_raises = None,
       communicate = Inr \<lparr>exit_status = 0,
                           stdout_decode = Inr (''https://a/1'' @ [CHR 0x0A] @ ''https://a/2  '' @ [CHR 0x0A]),
                           stderr_decode = Inr []\<rparr>\<rparr>)
     = Inr (Some (last_line (str_strip (''https://a/1'' @ [CHR 0x0A] @ ''https://a/2  '' @ [CHR 0x0A]))))"
    using T [THEN conjunct2, THEN conjunct2, THEN conjunct2, THEN conjunct2, THEN conjunct1] by simp
  note U = get_stream_url_outcomes [where youtube_url = "''https://youtu.be/x''"
      and run = "\<lparr>spawn_raises = None, communicate = Inl TimeoutError\<rparr>"]
  have t: "fst (get_stream_url ''https://youtu.be/x'' \<lparr>spawn_raises = None, communicate = Inl TimeoutError\<rparr>) = Inr None"
    using U [THEN conjunct2, THEN conjunct1] by (simp add: is_Exception_def)
  show ?thesis using l g t by simp
qed

text \<open>
  Claim C10 as stated fails: a cancellation while the resolver is awaited leaves
  \<open>_get_stream_url\<close> as \<open>CancelledError\<close>; and for an output of two lines whose second
  begins with two spaces, the value returned keeps the two spaces.
\<close>

theorem get_stream_url_cancelled_counterexample:
  "fst (get_stream_url ''https://youtu.be/x'' \<lparr>spawn_raises = None, communicate = Inl CancelledError\<rparr>)
     = Inl CancelledError
   \<and> fst (get_stream_url ''https://youtu.be/x''
      \<lparr>spawn_raises = None,
       communicate = Inr \<lparr>exit_status = 0,
                           stdout_decode = Inr (''https://a/1'' @ [CHR 0x0A] @ ''  https://a/2'' @ [CHR 0x0A]),
                           stderr_decode = Inr []\<rparr>\<rparr>)
     = Inr (Some ''  https://a/2'')"
  by code_simp

section \<open>Starting the pipeline\<close>

lemma stop_effect:
  "\<exists>self' acts.
     (stop self :: 'ws BettingSystem \<times> 't action list \<times> exn option) = (self', acts, None)
     \<and> is_running self' = False \<and> clients self' = clients self \<and> producer_released self'
     \<and> set acts \<subseteq> {ProducerTerminated, Log (INFO ''FFmpeg process terminated.'')}
     \<and> (ffmpeg_process self = None \<longrightarrow> ffmpeg_process self' = None \<and> ProducerTerminated \<notin> set acts)
     \<and> (\<forall>p. ffmpeg_process self = Some p \<and> returncode p \<noteq> None
            \<longrightarrow> ffmpeg_process self' = Some p \<and> ProducerTerminated \<notin> set acts)
     \<and> (\<forall>p. ffmpeg_process self = Some p \<and> returncode p = None
            \<longrightarrow> ffmpeg_process self' = Some (p\<lparr>sigterms := Suc (sigterms p)\<rparr>)
                \<and> ProducerTerminated \<in> set acts)"
  by (cases "ffmpeg_process self")
     (auto simp: stop_def terminate_def Let_def producer_released_def)






text \<open>
  Claim C7, as amended.  \<open>start\<close> has no check of the pipeline state: it does the same
  whatever the running flag is when it is called, and whenever the server opens, the
  resolver gives a URL and FFmpeg starts and stays alive, it starts a producer and calls
  \<open>streaming_recognize\<close>, from every state.  Only when the WebSocket server cannot be
  opened does it stop before acquisition: the exception of \<open>websockets.serve\<close> leaves
  \<open>start\<close>, with the running flag set.
\<close>

theorem start_has_no_state_check:
  "start ((self :: 'ws BettingSystem)\<lparr>is_running := b\<rparr>) youtube_url (env :: 't environment)
      = start self youtube_url env
   \<and> (serve_raises env = None
        \<and> fst (get_stream_url youtube_url (yt_dlp env)) = Inr (Some stream_url) \<and> stream_url \<noteq> []
        \<and> ffmpeg_spawn_raises env = None \<and> ffmpeg_returncode_after_sleep env = None
      \<longrightarrow> (\<exists>self' acts exc. start self youtube_url env = (self', acts, exc)
             \<and> ProducerStarted [''ffmpeg'', ''-i'', stream_url, ''-f'', ''s16le'', ''-ar'', ''16000'', ''-ac'', ''1'', ''-''] \<in> set acts
             \<and> StreamingRecognizeCalled \<in> set acts))
   \<and> (\<forall>e. serve_raises env = Some e
          \<longrightarrow> (\<exists>acts. start self youtube_url env = (self\<lparr>is_running := True\<rparr>, acts, Some e)
                 \<and> (\<forall>cmd. ProducerStarted cmd \<notin> set acts)
                 \<and> StreamingRecognizeCalled \<notin> set acts))"
proof -
  have a: "start (self\<lparr>is_running := b\<rparr>) youtube_url env = start self youtube_url env"
    by (simp add: start_def)
  have c: "\<forall>e. serve_raises env = Some e
          \<longrightarrow> (\<exists>acts. start self youtube_url env = (self\<lparr>is_running := True\<rparr>, acts, Some e)
                 \<and> (\<forall>cmd. ProducerStarted cmd \<notin> set acts)
                 \<and> StreamingRecognizeCalled \<notin> set acts)"
    by (simp add: start_def)
  have b: "\<exists>self' acts exc. start self youtube_url env = (self', acts, exc)
             \<and> ProducerStarted [''ffmpeg'', ''-i'', stream_url, ''-f'', ''s16le'', ''-ar'', ''16000'', ''-ac'', ''1'', ''-''] \<in> set acts
             \<and> StreamingRecognizeCalled \<in> set acts"
    if h: "serve_raises env = None" "fst (get_stream_url youtube_url (yt_dlp env)) = Inr (Some stream_url)"
      "stream_url \<noteq> []" "ffmpeg_spawn_raises env = None" "ffmpeg_returncode_after_sleep env = None"
  proof -
    obtain logs where g: "get_stream_url youtube_url (yt_dlp env) = (Inr (Some stream_url), logs)"
      using h(2) by (cases "get_stream_url youtube_url (yt_dlp env)") auto
    obtain self2 acts2 exc2 where
      t: "start_try (self\<lparr>is_running := True\<rparr>) youtube_url env = (self2, acts2, exc2)"
      and m: "ProducerStarted [''ffmpeg'', ''-i'', stream_url, ''-f'', ''s16le'', ''-ar'', ''16000'', ''-ac'', ''1'', ''-''] \<in> set acts2"
        "StreamingRecognizeCalled \<in> set acts2"
      using g h(3,4,5)
      by (cases "recognize_raises env")
         (auto simp: start_try_def start_ffmpeg_process_def google_stt_stream_def Let_def)
    obtain self3 acts3 where
      s: "(stop self2 :: 'ws BettingSystem \<times> 't action list \<times> exn option) = (self3, acts3, None)"
      using stop_effect [of self2] by (elim exE conjE) (rule that)
    show ?thesis using h(1) t m s by (cases exc2) (auto simp: start_def Let_def)
  qed
  show ?thesis using a b c by blast
qed

theorem start_has_no_state_check_witness:
  "\<exists>self' acts exc.
     start running_system_any_port ''https://youtu.be/x'' good_environment = (self', acts, exc)
     \<and> StreamingRecognizeCalled \<in> set acts"
proof -
  have h: "serve_raises good_environment = None
     \<and> fst (get_stream_url ''https://youtu.be/x'' (yt_dlp good_environment))
         = Inr (Some ''https://a/video.m3u8'')
     \<and> ''https://a/video.m3u8'' \<noteq> []
     \<and> ffmpeg_spawn_raises good_environment = None
     \<and> ffmpeg_returncode_after_sleep good_environment = None"
    by code_simp
  show ?thesis
    using h start_has_no_state_check [where self = running_system_any_port and b = True
        and youtube_url = "''https://youtu.be/x''" and env = good_environment
        and stream_url = "''https://a/video.m3u8''"]
    by blast
qed

text \<open>
  Claim C7 as stated fails: on a system built with \<open>ws_port = 0\<close>, so that a second
  server can be opened while the first run holds its own port, \<open>start\<close> called during
  a run, with the FFmpeg process alive, is not rejected; it starts a second producer and
  opens a second recognition session.
\<close>

theorem start_while_running_counterexample:
  "ws_port running_system_any_port = 0
   \<and> is_running running_system_any_port
   \<and> map_option returncode (ffmpeg_process running_system_any_port) = Some None
   \<and> (case start running_system_any_port ''https://youtu.be/x'' good_environment of
        (self', acts, exc) \<Rightarrow>
          exc = None
          \<and> ProducerStarted [''ffmpeg'', ''-i'', ''https://a/video.m3u8'', ''-f'', ''s16le'', ''-ar'', ''16000'', ''-ac'', ''1'', ''-''] \<in> set acts
          \<and> StreamingRecognizeCalled \<in> set acts)"
  by code_simp

end
